theory Spec2Isabelle
  imports Complex_Main "HOL-Library.Word"
begin

unbundle bit_operations_syntax

section \<open>Go values and types as the utility package sees them\<close>

text \<open>
  The package works on \<^verbatim>\<open>interface{}\<close> values and inspects them through
  \<^verbatim>\<open>reflect\<close>. The embedding keeps the dynamic type with every value.
  Go's \<^verbatim>\<open>int\<close> and \<^verbatim>\<open>uint\<close> are taken to be 64 bits wide (amd64, arm64).
  Named non-struct types, embedded struct fields and recursive struct types are outside the
  type universe below; a struct type is its name (as \<^verbatim>\<open>Type.String()\<close> prints
  it) and the list of its fields in declaration order.
\<close>

datatype kind =
    KBool | KInt | KInt8 | KInt16 | KInt32 | KInt64
  | KUint | KUint8 | KUint16 | KUint32 | KUint64
  | KFloat32 | KFloat64 | KString
  | KSlice | KStruct | KPtr | KInterface | KMap | KFunc | KArray

datatype gotype =
    TBool | TInt | TInt8 | TInt16 | TInt32 | TInt64
  | TUint | TUint8 | TUint16 | TUint32 | TUint64
  | TFloat32 | TFloat64 | TString
  | TSlice gotype
  | TPtr gotype
  | TStruct string "(string \<times> gotype) list"
  | TInterface
  | TMap gotype gotype
  | TArray nat gotype
  | TFuncT
  | TError
  | TTime

fun Kind :: "gotype \<Rightarrow> kind" where
  "Kind TBool = KBool"
| "Kind TInt = KInt"
| "Kind TInt8 = KInt8"
| "Kind TInt16 = KInt16"
| "Kind TInt32 = KInt32"
| "Kind TInt64 = KInt64"
| "Kind TUint = KUint"
| "Kind TUint8 = KUint8"
| "Kind TUint16 = KUint16"
| "Kind TUint32 = KUint32"
| "Kind TUint64 = KUint64"
| "Kind TFloat32 = KFloat32"
| "Kind TFloat64 = KFloat64"
| "Kind TString = KString"
| "Kind (TSlice t) = KSlice"
| "Kind (TPtr t) = KPtr"
| "Kind (TStruct n fs) = KStruct"
| "Kind TInterface = KInterface"
| "Kind (TMap k v) = KMap"
| "Kind (TArray n t) = KArray"
| "Kind TFuncT = KFunc"
| "Kind TError = KPtr"
| "Kind TTime = KStruct"

text \<open>\<^verbatim>\<open>Type.String()\<close>: the textual name the source compares against literals.\<close>

fun itoa_nat :: "nat \<Rightarrow> string" where
  "itoa_nat n = (if n < 10 then [char_of (48 + n)] else itoa_nat (n div 10) @ [char_of (48 + n mod 10)])"

declare itoa_nat.simps [simp del]

definition Itoa :: "int \<Rightarrow> string" where
  "Itoa i = (if i < 0 then CHR ''-'' # itoa_nat (nat (- i)) else itoa_nat (nat i))"

fun String :: "gotype \<Rightarrow> string" where
  "String TBool = ''bool''"
| "String TInt = ''int''"
| "String TInt8 = ''int8''"
| "String TInt16 = ''int16''"
| "String TInt32 = ''int32''"
| "String TInt64 = ''int64''"
| "String TUint = ''uint''"
| "String TUint8 = ''uint8''"
| "String TUint16 = ''uint16''"
| "String TUint32 = ''uint32''"
| "String TUint64 = ''uint64''"
| "String TFloat32 = ''float32''"
| "String TFloat64 = ''float64''"
| "String TString = ''string''"
| "String (TSlice t) = ''[]'' @ String t"
| "String (TPtr t) = ''*'' @ String t"
| "String (TStruct n fs) = n"
| "String TInterface = ''interface {}''"
| "String (TMap k v) = ''map['' @ String k @ '']'' @ String v"
| "String (TArray n t) = ''['' @ itoa_nat n @ '']'' @ String t"
| "String TFuncT = ''func()''"
| "String TError = ''*errors.errorString''"
| "String TTime = ''time.Time''"

text \<open>
  A floating-point value is given by what it denotes: \<open>Finite m e\<close> is the number
  \<open>m * 2 ^ e\<close> (every finite float32 and float64 is of this form), besides the
  infinities and NaN.
\<close>

datatype go_float = Finite int int | Infinity bool | NaN

datatype val =
    VNil
  | VBool bool
  | VInt "64 word" | VInt8 "8 word" | VInt16 "16 word" | VInt32 "32 word" | VInt64 "64 word"
  | VUint "64 word" | VUint8 "8 word" | VUint16 "16 word" | VUint32 "32 word" | VUint64 "64 word"
  | VFloat32 go_float | VFloat64 go_float
  | VString string
  | VMap "(string \<times> val) list"
  | VSlice gotype "val list"
  | VStruct string "(string \<times> gotype \<times> val) list"
  | VPtr gotype "val option"
  | VError string
  | VTime "64 word"
  | VOpaque gotype

text \<open>
  \<open>VMap\<close> is a \<^verbatim>\<open>map[string]interface{}\<close>: its entries in the order in
  which \<^verbatim>\<open>range\<close> visits them (Go leaves that order open; keys are distinct).
  \<open>VSlice t\<close> is a slice with element type \<open>t\<close> (\<open>VSlice TInterface\<close> is
  \<^verbatim>\<open>[]interface{}\<close>, \<open>VSlice TUint8\<close> is \<^verbatim>\<open>[]uint8\<close>); a nil slice and an empty one
  are not told apart. \<open>VStruct n fs\<close> is a struct value with its fields'
  declared types and current contents, \<open>VPtr t p\<close> a pointer to a \<open>t\<close> (nil when
  \<open>p = None\<close>), \<open>VTime s\<close> a \<^verbatim>\<open>time.Time\<close> whose \<^verbatim>\<open>Unix()\<close> is \<open>s\<close>,
  and \<open>VOpaque t\<close> a value of a type the package never looks into (a dynamic type is
  never an interface type).
\<close>

text \<open>\<^verbatim>\<open>reflect.TypeOf\<close>: \<open>None\<close> is the nil \<^verbatim>\<open>reflect.Type\<close>.\<close>

fun TypeOf :: "val \<Rightarrow> gotype option" where
  "TypeOf VNil = None"
| "TypeOf (VBool b) = Some TBool"
| "TypeOf (VInt w) = Some TInt"
| "TypeOf (VInt8 w) = Some TInt8"
| "TypeOf (VInt16 w) = Some TInt16"
| "TypeOf (VInt32 w) = Some TInt32"
| "TypeOf (VInt64 w) = Some TInt64"
| "TypeOf (VUint w) = Some TUint"
| "TypeOf (VUint8 w) = Some TUint8"
| "TypeOf (VUint16 w) = Some TUint16"
| "TypeOf (VUint32 w) = Some TUint32"
| "TypeOf (VUint64 w) = Some TUint64"
| "TypeOf (VFloat32 f) = Some TFloat32"
| "TypeOf (VFloat64 f) = Some TFloat64"
| "TypeOf (VString s) = Some TString"
| "TypeOf (VMap m) = Some (TMap TString TInterface)"
| "TypeOf (VSlice t vs) = Some (TSlice t)"
| "TypeOf (VStruct n fs) = Some (TStruct n (map (\<lambda>(f, t, v). (f, t)) fs))"
| "TypeOf (VPtr t p) = Some (TPtr t)"
| "TypeOf (VError s) = Some TError"
| "TypeOf (VTime s) = Some TTime"
| "TypeOf (VOpaque t) = (if t = TInterface then None else Some t)"

datatype panic =
    NilPointerDereference
  | LogPanic string
  | TypeAssertion
  | IndexOutOfRange
  | ReflectPanic

section \<open>Type and function registry (typemanager.go)\<close>

record ('t, 'f) TypeManager =
  typeRegistry :: "string \<rightharpoonup> 't"
  functionRegistry :: "string \<rightharpoonup> 'f"






definition DeleteType :: "('t, 'f) TypeManager \<Rightarrow> string \<Rightarrow> ('t, 'f) TypeManager" where
  "DeleteType tm name = tm\<lparr>typeRegistry := (typeRegistry tm)(name := None)\<rparr>"

definition DeleteFunc :: "('t, 'f) TypeManager \<Rightarrow> string \<Rightarrow> ('t, 'f) TypeManager" where
  "DeleteFunc tm name = tm\<lparr>functionRegistry := (functionRegistry tm)(name := None)\<rparr>"

section \<open>Library functions the package calls\<close>

text \<open>
  Functions of the Go standard library whose results no property below depends on are
  taken as parameters: the float parser and printer, the JSON encoder, the base64
  decoder, the rounding to float32 and to float64, the value a float-to-integer
  conversion yields when the truncated value does not fit the integer type (the language
  leaves it to the implementation), and the table of \<^verbatim>\<open>reflect.Value.Convert\<close> between
  different types (\<open>None\<close> where \<^verbatim>\<open>CanConvert\<close> is false).
\<close>

record golib =
  ParseFloat :: "string \<Rightarrow> go_float"
  FormatFloat :: "go_float \<Rightarrow> nat \<Rightarrow> string"
  json_Marshal :: "(string \<times> val) list \<Rightarrow> string option"
  b64_DecodeString :: "string \<Rightarrow> 8 word list option"
  float64_of_int :: "int \<Rightarrow> go_float"
  float32_of_float64 :: "go_float \<Rightarrow> go_float"
  float_to_int_unrepresentable :: "go_float \<Rightarrow> 64 word"
  reflect_Convert :: "val \<Rightarrow> gotype \<Rightarrow> val option"

text \<open>
  \<^verbatim>\<open>strings.TrimSpace\<close> removes leading and trailing Unicode white space. Strings are
  byte sequences; the white-space runes are listed by their UTF-8 encodings.
\<close>

definition space_runes :: "string list" where
  "space_runes =
    [[CHR 0x09], [CHR 0x0A], [CHR 0x0B], [CHR 0x0C], [CHR 0x0D], [CHR 0x20],
     [CHR 0xC2, CHR 0x85], [CHR 0xC2, CHR 0xA0],
     [CHR 0xE1, CHR 0x9A, CHR 0x80],
     [CHR 0xE2, CHR 0x80, CHR 0x80], [CHR 0xE2, CHR 0x80, CHR 0x81],
     [CHR 0xE2, CHR 0x80, CHR 0x82], [CHR 0xE2, CHR 0x80, CHR 0x83],
     [CHR 0xE2, CHR 0x80, CHR 0x84], [CHR 0xE2, CHR 0x80, CHR 0x85],
     [CHR 0xE2, CHR 0x80, CHR 0x86], [CHR 0xE2, CHR 0x80, CHR 0x87],
     [CHR 0xE2, CHR 0x80, CHR 0x88], [CHR 0xE2, CHR 0x80, CHR 0x89],
     [CHR 0xE2, CHR 0x80, CHR 0x8A], [CHR 0xE2, CHR 0x80, CHR 0xA8],
     [CHR 0xE2, CHR 0x80, CHR 0xA9], [CHR 0xE2, CHR 0x80, CHR 0xAF],
     [CHR 0xE2, CHR 0x81, CHR 0x9F], [CHR 0xE3, CHR 0x80, CHR 0x80]]"

definition space_len :: "string list \<Rightarrow> string \<Rightarrow> nat" where
  "space_len runes s =
     (if take 1 s \<in> set runes then 1
      else if take 2 s \<in> set runes then 2
      else if take 3 s \<in> set runes then 3 else 0)"

fun trim_runes :: "string list \<Rightarrow> string \<Rightarrow> string" where
  "trim_runes runes [] = []"
| "trim_runes runes (c # cs) =
     (if space_len runes (c # cs) = 0 then c # cs
      else trim_runes runes (drop (space_len runes (c # cs) - 1) cs))"

definition TrimSpace :: "string \<Rightarrow> string" where
  "TrimSpace s = rev (trim_runes (map rev space_runes) (rev (trim_runes space_runes s)))"

text \<open>
  \<^verbatim>\<open>strconv.Atoi\<close> on a 64-bit platform: an optional sign and then decimal digits only;
  the value with \<open>True\<close>, or 0 (syntax error) or the nearest bound (range error) with
  \<open>False\<close>.
\<close>

definition is_digit :: "char \<Rightarrow> bool" where
  "is_digit c = (48 \<le> (of_char c :: nat) \<and> (of_char c :: nat) \<le> 57)"

definition digits_value :: "string \<Rightarrow> nat" where
  "digits_value ds = foldl (\<lambda>n c. n * 10 + ((of_char c :: nat) - 48)) 0 ds"

definition Atoi :: "string \<Rightarrow> 64 word \<times> bool" where
  "Atoi s =
     (let neg = (s \<noteq> [] \<and> hd s = CHR ''-'');
          ds = (if s \<noteq> [] \<and> (hd s = CHR ''-'' \<or> hd s = CHR ''+'') then tl s else s)
      in if ds = [] \<or> \<not> list_all is_digit ds then (0, False)
         else if neg then
           (if digits_value ds > 2 ^ 63 then (word_of_int (- (2 ^ 63)), False)
            else (word_of_int (- int (digits_value ds)), True))
         else
           (if digits_value ds \<ge> 2 ^ 63 then (word_of_int (2 ^ 63 - 1), False)
            else (word_of_int (int (digits_value ds)), True)))"

text \<open>\<^verbatim>\<open>strconv.ParseBool\<close>: \<open>None\<close> is the syntax error.\<close>

definition ParseBool :: "string \<Rightarrow> bool option" where
  "ParseBool s =
     (if s \<in> set [''1'', ''t'', ''T'', ''TRUE'', ''true'', ''True''] then Some True
      else if s \<in> set [''0'', ''f'', ''F'', ''FALSE'', ''false'', ''False''] then Some False
      else None)"

text \<open>
  \<^verbatim>\<open>binary.BigEndian.Uint64\<close> reads the first eight bytes and panics (index out of
  range) on a shorter slice.
\<close>

definition BigEndian_Uint64 :: "8 word list \<Rightarrow> panic + 64 word" where
  "BigEndian_Uint64 b =
     (if length b < 8 then Inl IndexOutOfRange
      else Inr (foldl (\<lambda>acc x. push_bit 8 acc OR ucast x) 0 (take 8 b)))"

text \<open>
  Conversion of a float to \<^verbatim>\<open>int\<close>: the fraction is discarded (truncation towards
  zero); when the result does not fit 64 bits, or the float is an infinity or NaN, the
  value is the implementation's.
\<close>

definition float_truncate :: "go_float \<Rightarrow> int option" where
  "float_truncate f =
     (case f of
        Finite m e \<Rightarrow>
          Some (if 0 \<le> e then m * 2 ^ nat e
                else if 0 \<le> m then m div 2 ^ nat (- e)
                else - ((- m) div 2 ^ nat (- e)))
      | Infinity b \<Rightarrow> None
      | NaN \<Rightarrow> None)"

definition int_of_float :: "golib \<Rightarrow> go_float \<Rightarrow> 64 word" where
  "int_of_float lib f =
     (case float_truncate f of
        Some z \<Rightarrow> if - (2 ^ 63) \<le> z \<and> z < 2 ^ 63 then word_of_int z
                  else float_to_int_unrepresentable lib f
      | None \<Rightarrow> float_to_int_unrepresentable lib f)"

section \<open>Scalar coercion (numbers.go)\<close>

text \<open>
  Each function switches on \<^verbatim>\<open>reflect.TypeOf(value).Kind()\<close>; a value's constructor
  fixes its kind, so the switch is a match on the constructor, in the order of the
  source. \<^verbatim>\<open>log.Panicln\<close> is the panic \<open>LogPanic\<close> with the type's name, and calling
  \<^verbatim>\<open>Kind()\<close> on the nil type of a nil value is a nil-pointer dereference.
\<close>

text \<open>The type assertions \<^verbatim>\<open>value.([]uint8)\<close> and \<^verbatim>\<open>value.([]string)\<close>.\<close>

definition bytes_of :: "val \<Rightarrow> 8 word list" where
  "bytes_of v = (case v of VSlice t vs \<Rightarrow> map (\<lambda>x. case x of VUint8 b \<Rightarrow> b | _ \<Rightarrow> 0) vs | _ \<Rightarrow> [])"

definition strings_of :: "val \<Rightarrow> string list" where
  "strings_of v = (case v of VSlice t vs \<Rightarrow> map (\<lambda>x. case x of VString s \<Rightarrow> s | _ \<Rightarrow> []) vs | _ \<Rightarrow> [])"

fun ToInt :: "golib \<Rightarrow> val \<Rightarrow> panic + 64 word" where
  "ToInt lib VNil = Inr 0"
| "ToInt lib (VString s) = Inr (fst (Atoi s))"
| "ToInt lib (VInt w) = Inr w"
| "ToInt lib (VInt8 w) = Inr (scast w)"
| "ToInt lib (VInt16 w) = Inr (scast w)"
| "ToInt lib (VInt32 w) = Inr (scast w)"
| "ToInt lib (VInt64 w) = Inr w"
| "ToInt lib (VFloat32 f) = Inr (int_of_float lib f)"
| "ToInt lib (VFloat64 f) = Inr (int_of_float lib f)"
| "ToInt lib (VBool b) = Inr (if b then 1 else 0)"
| "ToInt lib v =
     (if String (the (TypeOf v)) = ''[]uint8'' then BigEndian_Uint64 (bytes_of v)
      else Inl (LogPanic (String (the (TypeOf v)))))"

definition string_of_bytes :: "8 word list \<Rightarrow> string" where
  "string_of_bytes bs = map (\<lambda>b. char_of (unat b)) bs"

fun join_space :: "string list \<Rightarrow> string" where
  "join_space [] = []"
| "join_space [v] = v"
| "join_space (v # vs) = v @ '' '' @ join_space vs"

fun ToString :: "golib \<Rightarrow> val \<Rightarrow> panic + string" where
  "ToString lib VNil = Inl NilPointerDereference"
| "ToString lib (VString s) = Inr (TrimSpace s)"
| "ToString lib (VInt w) =
     (case ToInt lib (VInt w) of Inl p \<Rightarrow> Inl p | Inr i \<Rightarrow> Inr (TrimSpace (Itoa (sint i))))"
| "ToString lib (VInt8 w) = Inr (TrimSpace (Itoa (sint w)))"
| "ToString lib (VInt16 w) = Inr (TrimSpace (Itoa (sint w)))"
| "ToString lib (VInt32 w) = Inr (TrimSpace (Itoa (sint w)))"
| "ToString lib (VInt64 w) = Inr (TrimSpace (Itoa (sint w)))"
| "ToString lib (VUint8 w) = Inr (TrimSpace (Itoa (uint w)))"
| "ToString lib (VUint16 w) = Inr (TrimSpace (Itoa (uint w)))"
| "ToString lib (VUint32 w) = Inr (TrimSpace (Itoa (uint w)))"
| "ToString lib (VUint64 w) = Inr (TrimSpace (Itoa (sint w)))"
| "ToString lib (VFloat32 f) = Inr (TrimSpace (FormatFloat lib f 32))"
| "ToString lib (VFloat64 f) = Inr (TrimSpace (FormatFloat lib f 64))"
| "ToString lib (VBool b) = Inr (TrimSpace (if b then ''true'' else ''false''))"
| "ToString lib v =
     (let t = String (the (TypeOf v)) in
      if t = ''[]uint8'' then Inr (TrimSpace (string_of_bytes (bytes_of v)))
      else if t = ''*errors.errorString'' \<or> t = ''*errors.Error'' then
        Inr (TrimSpace (case v of VError s \<Rightarrow> s | _ \<Rightarrow> []))
      else if t = ''[]string'' then Inr (TrimSpace (join_space (strings_of v)))
      else if t = ''map[string]interface {}'' then
        (case json_Marshal lib (case v of VMap m \<Rightarrow> m | _ \<Rightarrow> []) of
           Some d \<Rightarrow> Inr d | None \<Rightarrow> Inr ''{}'')
      else Inl (LogPanic t))"

fun IsBool :: "val \<Rightarrow> panic + bool" where
  "IsBool VNil = Inl NilPointerDereference"
| "IsBool (VBool b) = Inr True"
| "IsBool (VString s) = Inr (ParseBool s \<noteq> None)"
| "IsBool v = Inr False"

fun ToBool :: "val \<Rightarrow> panic + bool" where
  "ToBool VNil = Inl NilPointerDereference"
| "ToBool (VBool b) = Inr b"
| "ToBool (VString s) = Inr (case ParseBool s of Some b \<Rightarrow> b | None \<Rightarrow> False)"
| "ToBool v = Inr False"

fun IsNumeric :: "val \<Rightarrow> panic + bool" where
  "IsNumeric VNil = Inl NilPointerDereference"
| "IsNumeric (VInt w) = Inr True"
| "IsNumeric (VInt8 w) = Inr True"
| "IsNumeric (VInt16 w) = Inr True"
| "IsNumeric (VInt32 w) = Inr True"
| "IsNumeric (VInt64 w) = Inr True"
| "IsNumeric (VFloat32 f) = Inr True"
| "IsNumeric (VFloat64 f) = Inr True"
| "IsNumeric (VTime s) = Inr True"
| "IsNumeric v = Inr False"

fun ToNumeric :: "golib \<Rightarrow> val \<Rightarrow> panic + go_float" where
  "ToNumeric lib VNil = Inl NilPointerDereference"
| "ToNumeric lib (VString s) = Inr (ParseFloat lib s)"
| "ToNumeric lib (VInt w) = Inr (float64_of_int lib (sint w))"
| "ToNumeric lib (VInt8 w) = Inr (float64_of_int lib (sint w))"
| "ToNumeric lib (VInt16 w) = Inr (float64_of_int lib (sint w))"
| "ToNumeric lib (VInt32 w) = Inr (float64_of_int lib (sint w))"
| "ToNumeric lib (VInt64 w) = Inr (float64_of_int lib (sint w))"
| "ToNumeric lib (VFloat32 f) = Inr f"
| "ToNumeric lib (VFloat64 f) = Inr f"
| "ToNumeric lib (VBool b) = Inr (if b then Finite 1 0 else Finite 0 0)"
| "ToNumeric lib (VTime s) = Inr (float64_of_int lib (sint s))"
| "ToNumeric lib v = Inl (LogPanic (String (the (TypeOf v))))"

section \<open>The part of package reflect the materializer uses\<close>

text \<open>
  A \<^verbatim>\<open>reflect.Value\<close> is \<open>None\<close> (the zero Value, for which \<^verbatim>\<open>IsValid\<close> is false) or
  holds a value; \<open>Some VNil\<close> is a valid Value of interface type that holds nil.
  An \<^verbatim>\<open>error\<close> is its message.
\<close>

type_synonym rvalue = "val option"
type_synonym error = string

fun Zero :: "gotype \<Rightarrow> val" where
  "Zero TBool = VBool False"
| "Zero TInt = VInt 0"
| "Zero TInt8 = VInt8 0"
| "Zero TInt16 = VInt16 0"
| "Zero TInt32 = VInt32 0"
| "Zero TInt64 = VInt64 0"
| "Zero TUint = VUint 0"
| "Zero TUint8 = VUint8 0"
| "Zero TUint16 = VUint16 0"
| "Zero TUint32 = VUint32 0"
| "Zero TUint64 = VUint64 0"
| "Zero TFloat32 = VFloat32 (Finite 0 0)"
| "Zero TFloat64 = VFloat64 (Finite 0 0)"
| "Zero TString = VString []"
| "Zero (TSlice t) = VSlice t []"
| "Zero (TPtr t) = VPtr t None"
| "Zero (TStruct n fs) = VStruct n (map (\<lambda>ft. (fst ft, snd ft, Zero (snd ft))) fs)"
| "Zero TInterface = VNil"
| "Zero (TMap k v) = (if k = TString \<and> v = TInterface then VMap [] else VOpaque (TMap k v))"
| "Zero t = VOpaque t"

definition ValueOf :: "val \<Rightarrow> rvalue" where
  "ValueOf v = (if v = VNil then None else Some v)"

text \<open>\<^verbatim>\<open>Value.Type()\<close> of a valid Value.\<close>

definition Type :: "val \<Rightarrow> gotype" where
  "Type v = (case TypeOf v of None \<Rightarrow> TInterface | Some t \<Rightarrow> t)"

text \<open>
  Assignability, for the types of the universe: identical types, or any type to the
  empty interface.
\<close>

definition AssignableTo :: "gotype \<Rightarrow> gotype \<Rightarrow> bool" where
  "AssignableTo src dst = (src = dst \<or> dst = TInterface)"

definition MakeSlice :: "gotype \<Rightarrow> nat \<Rightarrow> panic + val" where
  "MakeSlice typ n =
     (case typ of TSlice t \<Rightarrow> Inr (VSlice t (replicate n (Zero t))) | _ \<Rightarrow> Inl ReflectPanic)"

definition Append :: "rvalue \<Rightarrow> rvalue \<Rightarrow> panic + rvalue" where
  "Append s x =
     (case s of
        Some (VSlice t vs) \<Rightarrow>
          (case x of
             None \<Rightarrow> Inl ReflectPanic
           | Some v \<Rightarrow>
               if AssignableTo (Type v) t then Inr (Some (VSlice t (vs @ [v])))
               else Inl ReflectPanic)
      | _ \<Rightarrow> Inl ReflectPanic)"

section \<open>Untyped sequences (dynamic\_reflect.go, InitializeArray)\<close>

text \<open>The first loop: \<^verbatim>\<open>for i := 1; i < len(data) && sameType; i++\<close>.\<close>

function InitializeArray_sameType :: "val list \<Rightarrow> nat \<Rightarrow> bool \<Rightarrow> panic + bool" where
  "InitializeArray_sameType data i sameType =
     (if i < length data \<and> sameType then
        (if data ! i \<noteq> VNil then
           (case TypeOf (data ! (i - 1)) of
              None \<Rightarrow> Inl NilPointerDereference
            | Some tp \<Rightarrow>
                InitializeArray_sameType data (i + 1) (String (the (TypeOf (data ! i))) = String tp))
         else InitializeArray_sameType data (i + 1) sameType)
      else Inr sameType)"
  by pat_completeness auto
termination
  by (relation "measure (\<lambda>(data, i, sameType). length data - i)") auto

declare InitializeArray_sameType.simps [simp del]

text \<open>The second loop: \<^verbatim>\<open>for i := 0; i < len(data); i++\<close>.\<close>

function InitializeArray_append :: "val list \<Rightarrow> nat \<Rightarrow> bool \<Rightarrow> rvalue \<Rightarrow> panic + rvalue" where
  "InitializeArray_append data i sameType values =
     (if i < length data then
        (if data ! i = VNil then InitializeArray_append data (i + 1) sameType values
         else
           (case Append
                   (if i = 0 then
                      (if sameType then Some (VSlice (the (TypeOf (data ! i))) [])
                       else Some (VSlice TInterface []))
                    else values)
                   (ValueOf (data ! i)) of
              Inl p \<Rightarrow> Inl p
            | Inr values' \<Rightarrow> InitializeArray_append data (i + 1) sameType values'))
      else Inr values)"
  by pat_completeness auto
termination
  by (relation "measure (\<lambda>(data, i, sameType, values). length data - i)") auto

declare InitializeArray_append.simps [simp del]

definition InitializeArray :: "val list \<Rightarrow> panic + (rvalue \<times> error option)" where
  "InitializeArray data =
     (case (if length data > 1 then InitializeArray_sameType data 1 True else Inr True) of
        Inl p \<Rightarrow> Inl p
      | Inr sameType \<Rightarrow>
          (case InitializeArray_append data 0 sameType None of
             Inl p \<Rightarrow> Inl p
           | Inr values \<Rightarrow> Inr (values, None)))"

section \<open>Measures used to state the properties\<close>

text \<open>The number a finite float denotes.\<close>

definition float_value :: "int \<Rightarrow> int \<Rightarrow> real" where
  "float_value m e = (if 0 \<le> e then of_int m * 2 ^ nat e else of_int m / 2 ^ nat (- e))"

text \<open>The unsigned number a byte sequence denotes, most significant byte first.\<close>

definition big_endian_unsigned :: "8 word list \<Rightarrow> int" where
  "big_endian_unsigned bs = foldl (\<lambda>a b. a * 256 + uint b) 0 bs"

text \<open>
  A library about which nothing is known, for evaluating the package on concrete inputs:
  no such evaluation can depend on what a library function returns.
\<close>

definition some_lib :: golib where
  "some_lib = \<lparr>ParseFloat = undefined, FormatFloat = undefined, json_Marshal = undefined,
     b64_DecodeString = undefined, float64_of_int = undefined,
     float32_of_float64 = undefined, float_to_int_unrepresentable = undefined,
     reflect_Convert = undefined\<rparr>"

section \<open>Registry properties\<close>



section \<open>Coercion properties\<close>

lemma float_truncate_Finite:
  "float_truncate (Finite m e) =
     Some (if 0 \<le> float_value m e then \<lfloor>float_value m e\<rfloor> else \<lceil>float_value m e\<rceil>)"
proof (cases "0 \<le> e")
  case True
  define z where "z = m * 2 ^ nat e"
  have "float_value m e = of_int z"
    using True by (simp add: float_value_def z_def)
  then have "(if 0 \<le> float_value m e then \<lfloor>float_value m e\<rfloor> else \<lceil>float_value m e\<rceil>) = z"
    by simp
  moreover have "float_truncate (Finite m e) = Some z"
    using True by (simp add: float_truncate_def z_def)
  ultimately show ?thesis by simp
next
  case False
  let ?d = "(2 :: int) ^ nat (- e)"
  have q: "float_value m e = of_int m / of_int ?d"
    using False by (simp add: float_value_def)
  have dpos: "0 < ?d" by simp
  show ?thesis
  proof (cases "0 \<le> m")
    case True
    then have "0 \<le> float_value m e" unfolding q by simp
    moreover have "\<lfloor>float_value m e\<rfloor> = m div ?d"
      unfolding q by (rule floor_divide_of_int_eq)
    ultimately show ?thesis using False True by (simp add: float_truncate_def)
  next
    case mneg: False
    then have neg: "float_value m e < 0" unfolding q
      by (simp add: divide_neg_pos)
    have "\<lceil>float_value m e\<rceil> = - \<lfloor>of_int (- m) / (of_int ?d :: real)\<rfloor>"
      unfolding q ceiling_def by simp
    also have "\<dots> = - ((- m) div ?d)"
      by (simp only: floor_divide_of_int_eq)
    finally show ?thesis using False mneg neg by (simp add: float_truncate_def)
  qed
qed

lemma is_digit_char_of: "d < 10 \<Longrightarrow> is_digit (char_of (48 + d)) \<and> (of_char (char_of (48 + d :: nat)) :: nat) = 48 + d"
  by (simp add: is_digit_def)

lemma itoa_nat_digits:
  "itoa_nat n \<noteq> [] \<and> list_all is_digit (itoa_nat n)
   \<and> foldl (\<lambda>n c. n * 10 + ((of_char c :: nat) - 48)) a (itoa_nat n) = a * 10 ^ length (itoa_nat n) + n"
proof (induction n arbitrary: a rule: itoa_nat.induct)
  case (1 n)
  show ?case
  proof (cases "n < 10")
    case True
    then show ?thesis
      using is_digit_char_of [of n]
      by (subst (1 2 3 4) itoa_nat.simps) simp
  next
    case False
    have d: "n mod 10 < 10" by simp
    from False 1 is_digit_char_of [OF d] show ?thesis
      by (subst (1 2 3 4) itoa_nat.simps) (simp add: algebra_simps)
  qed
qed

lemma itoa_nat_hd: "hd (itoa_nat n) \<noteq> CHR ''-'' \<and> hd (itoa_nat n) \<noteq> CHR ''+''"
proof -
  have "itoa_nat n \<noteq> []" "list_all is_digit (itoa_nat n)"
    using itoa_nat_digits [of n 0] by simp_all
  then have "is_digit (hd (itoa_nat n))"
    by (cases "itoa_nat n") simp_all
  then show ?thesis by (auto simp add: is_digit_def)
qed

lemma Atoi_Itoa:
  assumes "- (2 ^ 63) \<le> i" "i < 2 ^ 63"
  shows "Atoi (Itoa i) = (word_of_int i, True)"
proof (cases "i < 0")
  case True
  let ?n = "nat (- i)"
  have v: "digits_value (itoa_nat ?n) = ?n"
    using itoa_nat_digits [of ?n 0] by (simp add: digits_value_def)
  have le: "?n \<le> 2 ^ 63" using assms True by (simp add: nat_le_iff)
  from True v le itoa_nat_digits [of ?n 0] show ?thesis
    by (simp add: Atoi_def Itoa_def Let_def)
next
  case False
  let ?n = "nat i"
  have v: "digits_value (itoa_nat ?n) = ?n"
    using itoa_nat_digits [of ?n 0] by (simp add: digits_value_def)
  have lt: "?n < 2 ^ 63" using assms False by (simp add: nat_less_iff)
  from False v lt itoa_nat_digits [of ?n 0] itoa_nat_hd [of ?n] show ?thesis
    by (simp add: Atoi_def Itoa_def Let_def)
qed

lemma be_step:
  fixes acc :: "64 word" and x :: "8 word"
  assumes "uint acc < 2 ^ 56"
  shows "uint (push_bit 8 acc OR ucast x) = uint acc * 256 + uint x"
proof -
  have disj: "\<And>n. \<not> bit (push_bit 8 acc) n \<or> \<not> bit (ucast x :: 64 word) n"
    by (auto simp add: bit_push_bit_iff bit_ucast_iff dest: bit_imp_le_length)
  have "push_bit 8 acc OR (ucast x :: 64 word) = push_bit 8 acc + ucast x"
    using disjunctive_add [OF disj] by simp
  moreover have "uint (push_bit 8 acc + (ucast x :: 64 word)) = uint acc * 256 + uint x"
    using assms uint_lt2p [of x]
    by (simp add: uint_word_ariths push_bit_eq_mult uint_up_ucast is_up take_bit_eq_mod)
  ultimately show ?thesis by simp
qed

lemma be_fold:
  fixes bs :: "8 word list"
  assumes "length bs \<le> 8"
  shows "uint (foldl (\<lambda>acc x. push_bit 8 acc OR ucast x) (0 :: 64 word) bs)
           = foldl (\<lambda>a b. a * 256 + uint b) 0 bs
         \<and> foldl (\<lambda>a b. a * 256 + uint b) 0 bs < 256 ^ length bs"
  using assms
proof (induction bs rule: rev_induct)
  case Nil
  then show ?case by simp
next
  case (snoc x xs)
  let ?w = "foldl (\<lambda>acc x. push_bit 8 acc OR ucast x) (0 :: 64 word) xs"
  let ?n = "foldl (\<lambda>a b. a * 256 + uint b) 0 xs"
  from snoc have ih: "uint ?w = ?n" "?n < 256 ^ length xs" and len: "length xs \<le> 7"
    by simp_all
  have "(256 :: int) ^ length xs \<le> 256 ^ 7"
    using len by (intro power_increasing) simp_all
  with ih have small: "uint ?w < 2 ^ 56" by simp
  have a: "uint (push_bit 8 ?w OR ucast x) = ?n * 256 + uint x"
    using be_step [OF small] ih by simp
  have "uint x < 256" using uint_lt2p [of x] by simp
  with ih have b: "?n * 256 + uint x < 256 ^ length (xs @ [x])"
    by simp
  from a b show ?case by simp
qed

lemma sint_of_uint:
  fixes w :: "64 word"
  shows "sint w = (if uint w < 2 ^ 63 then uint w else uint w - 2 ^ 64)"
proof (cases "uint w < 2 ^ 63")
  case True
  then show ?thesis
    by (simp add: sint_uint signed_take_bit_eq_take_bit_minus take_bit_eq_mod
        bit_iff_odd div_pos_pos_trivial)
next
  case False
  have "uint w < 2 ^ 64" using uint_lt2p [of w] by simp
  with False have "uint w div 2 ^ 63 = 1" by simp
  with False \<open>uint w < 2 ^ 64\<close> show ?thesis
    by (simp add: sint_uint signed_take_bit_eq_take_bit_minus take_bit_eq_mod
        bit_iff_odd)
qed

lemma sint_word_of_int_64:
  "- (2 ^ 63) \<le> z \<Longrightarrow> z < 2 ^ 63 \<Longrightarrow> sint (word_of_int z :: 64 word) = z"
  by (simp add: sint_sbintrunc' signed_take_bit_int_eq_self)

text \<open>
  C10: \<^verbatim>\<open>ToInt\<close> of a nil value is 0, without a panic, although nil has no kind; the
  other coercion functions (\<^verbatim>\<open>ToString\<close>, \<^verbatim>\<open>ToBool\<close>, \<^verbatim>\<open>ToNumeric\<close>) have no such
  guard and panic on nil.
\<close>

theorem C10_ToInt_nil_guard:
  "ToInt lib VNil = Inr 0
   \<and> ToString lib VNil = Inl NilPointerDereference
   \<and> ToBool VNil = Inl NilPointerDereference
   \<and> ToNumeric lib VNil = Inl NilPointerDereference"
  by simp

text \<open>
  C7, as the code has it: \<^verbatim>\<open>ToInt\<close> truncates a finite float towards zero whenever
  the truncated value fits the 64-bit \<^verbatim>\<open>int\<close>; it turns \<^verbatim>\<open>true\<close> into 1 and
  \<^verbatim>\<open>false\<close> into 0; it parses the decimal notation of every 64-bit integer back to
  that integer; and it reads a sequence of exactly eight bytes as a big-endian 64-bit
  word, which it returns as a signed \<^verbatim>\<open>int\<close>: the unsigned value when that is below
  \<open>2 ^ 63\<close>, and the unsigned value minus \<open>2 ^ 64\<close> otherwise.
\<close>

theorem C7_ToInt_conversions:
  "(- (2 ^ 63) \<le> (if 0 \<le> float_value m e then \<lfloor>float_value m e\<rfloor> else \<lceil>float_value m e\<rceil>)
      \<and> (if 0 \<le> float_value m e then \<lfloor>float_value m e\<rfloor> else \<lceil>float_value m e\<rceil>) < 2 ^ 63
    \<longrightarrow> (\<exists>w. ToInt lib (VFloat64 (Finite m e)) = Inr w \<and> ToInt lib (VFloat32 (Finite m e)) = Inr w
          \<and> sint w = (if 0 \<le> float_value m e then \<lfloor>float_value m e\<rfloor> else \<lceil>float_value m e\<rceil>)))
   \<and> ToInt lib (VBool True) = Inr 1 \<and> ToInt lib (VBool False) = Inr 0
   \<and> (- (2 ^ 63) \<le> i \<and> i < 2 ^ 63
    \<longrightarrow> (\<exists>w. ToInt lib (VString (Itoa i)) = Inr w \<and> sint w = i))
   \<and> (length bs = 8
    \<longrightarrow> (\<exists>w. ToInt lib (VSlice TUint8 (map VUint8 bs)) = Inr w
          \<and> uint w = big_endian_unsigned bs
          \<and> sint w = (if big_endian_unsigned bs < 2 ^ 63 then big_endian_unsigned bs
                      else big_endian_unsigned bs - 2 ^ 64)))"
proof (intro conjI impI)
  let ?z = "if 0 \<le> float_value m e then \<lfloor>float_value m e\<rfloor> else \<lceil>float_value m e\<rceil>"
  assume r: "- (2 ^ 63) \<le> ?z \<and> ?z < 2 ^ 63"
  have t: "float_truncate (Finite m e) = Some ?z" by (rule float_truncate_Finite)
  have "sint (word_of_int ?z :: 64 word) = ?z"
    using r by (intro sint_word_of_int_64) simp_all
  then show "\<exists>w. ToInt lib (VFloat64 (Finite m e)) = Inr w \<and> ToInt lib (VFloat32 (Finite m e)) = Inr w
      \<and> sint w = ?z"
    using r by (simp add: int_of_float_def t)
next
  show "ToInt lib (VBool True) = Inr 1" by simp
next
  show "ToInt lib (VBool False) = Inr 0" by simp
next
  assume r: "- (2 ^ 63) \<le> i \<and> i < 2 ^ 63"
  then have "Atoi (Itoa i) = (word_of_int i, True)" by (intro Atoi_Itoa) simp_all
  moreover have "sint (word_of_int i :: 64 word) = i"
    using r by (intro sint_word_of_int_64) simp_all
  ultimately show "\<exists>w. ToInt lib (VString (Itoa i)) = Inr w \<and> sint w = i" by simp
next
  assume len: "length bs = 8"
  let ?w = "foldl (\<lambda>acc x. push_bit 8 acc OR ucast x) (0 :: 64 word) bs"
  have u: "uint ?w = big_endian_unsigned bs"
    using be_fold [of bs] len by (simp add: big_endian_unsigned_def)
  have "bytes_of (VSlice TUint8 (map VUint8 bs)) = bs"
    by (simp add: bytes_of_def comp_def)
  then have "ToInt lib (VSlice TUint8 (map VUint8 bs)) = Inr ?w"
    using len by (simp add: BigEndian_Uint64_def)
  moreover have "sint ?w = (if big_endian_unsigned bs < 2 ^ 63 then big_endian_unsigned bs
      else big_endian_unsigned bs - 2 ^ 64)"
    using sint_of_uint [of ?w] u by simp
  ultimately show "\<exists>w. ToInt lib (VSlice TUint8 (map VUint8 bs)) = Inr w \<and> uint w = big_endian_unsigned bs
      \<and> sint w = (if big_endian_unsigned bs < 2 ^ 63 then big_endian_unsigned bs
                  else big_endian_unsigned bs - 2 ^ 64)"
    using u by blast
qed

theorem C7_ToInt_conversions_witness:
  "0 \<le> float_value 8781456392778547 (- 51)
   \<and> \<lfloor>float_value 8781456392778547 (- 51)\<rfloor> = 3
   \<and> ToInt some_lib (VFloat64 (Finite 8781456392778547 (- 51))) = Inr 3
   \<and> Itoa 42 = ''42''
   \<and> ToInt some_lib (VString ''42'') = Inr 42
   \<and> length [0, 0, 0, 0, 0, 0, 1, 2 :: 8 word] = 8
   \<and> big_endian_unsigned [0, 0, 0, 0, 0, 0, 1, 2] = 258
   \<and> ToInt some_lib (VSlice TUint8 (map VUint8 [0, 0, 0, 0, 0, 0, 1, 2])) = Inr 258"
proof -
  have f: "float_value 8781456392778547 (- 51) = 8781456392778547 / 2251799813685248"
    by (simp add: float_value_def)
  have fl: "\<lfloor>8781456392778547 / 2251799813685248 :: real\<rfloor> = 3"
    by (simp add: floor_eq_iff)
  have it: "Itoa 42 = ''42''"
    by code_simp
  show ?thesis
    using C7_ToInt_conversions [of 8781456392778547 "- 51" some_lib 42 "[0, 0, 0, 0, 0, 0, 1, 2]"]
    by (simp add: f fl it big_endian_unsigned_def int_of_float_def float_truncate_def
        Atoi_def is_digit_def digits_value_def BigEndian_Uint64_def bytes_of_def)
qed

text \<open>
  The claim as written (eight bytes are read as their unsigned big-endian value) fails
  when the first byte has its top bit set: eight bytes \<open>0xFF\<close> give \<open>-1\<close>.
\<close>

theorem C7_bytes_unsigned_counterexample:
  "ToInt some_lib (VSlice TUint8 (map VUint8 [255, 255, 255, 255, 255, 255, 255, 255])) = Inr (- 1)
   \<and> sint (- 1 :: 64 word) = - 1
   \<and> big_endian_unsigned [255, 255, 255, 255, 255, 255, 255, 255] = 18446744073709551615
   \<and> sint (- 1 :: 64 word) \<noteq> big_endian_unsigned [255, 255, 255, 255, 255, 255, 255, 255]"
  by (simp add: BigEndian_Uint64_def big_endian_unsigned_def bytes_of_def)

end
